theory Spec2Isabelle
  imports Complex_Main
begin

section \<open>Python values and the \<open>%\<close> string-formatting operator\<close>

text \<open>
  The notebook builds every parameterised ADQL query with Python's printf-style operator
  \<^verbatim>\<open>template % args\<close>. Its templates use the conversions \<^verbatim>\<open>%s\<close> (cells 5 and 12),
  \<^verbatim>\<open>%f\<close> (cell 17) and \<^verbatim>\<open>%d\<close> (the result counts that are printed). A Python \<open>str\<close> is
  modelled as a \<open>string\<close>, a Python \<open>int\<close> as an \<open>int\<close>, and a Python \<open>float\<close> as the
  IEEE-754 double it is: sign, integer mantissa and binary exponent, or an infinity, or NaN.
\<close>

abbreviation sq :: char where
  "sq \<equiv> CHR 0x27"

abbreviation nl :: char where
  "nl \<equiv> CHR 0x0A"

text \<open>\<open>Finite neg m e\<close> is the double of value \<open>(if neg then -1 else 1) * m * 2 ^ e\<close>.\<close>

datatype pyfloat = Finite bool int int | Infinity bool | NaN

datatype pyval = PyStr string | PyFloat pyfloat | PyInt int

text \<open>
  \<open>TypeError\<close> and \<open>ValueError\<close> are the exceptions the operator raises. \<open>Unsupported\<close>
  marks a conversion outside the fragment embedded here (a conversion character, or a
  pairing of conversion and argument type, that no cell of the notebook uses).
\<close>

datatype pyerror = TypeError | ValueError | Unsupported

definition pow2 :: "int \<Rightarrow> rat" where
  "pow2 e = (if 0 \<le> e then 2 ^ nat e else 1 / 2 ^ nat (- e))"

fun float_value :: "pyfloat \<Rightarrow> rat option" where
  "float_value (Finite neg m e) = Some ((if neg then - 1 else 1) * of_int m * pow2 e)"
| "float_value (Infinity neg) = None"
| "float_value NaN = None"

text \<open>Decimal digits of a non-negative integer, as \<open>str(n)\<close> writes them.\<close>

function show_nat :: "int \<Rightarrow> string" where
  "show_nat n =
     (if n < 10 then [''0123456789'' ! nat n]
      else show_nat (n div 10) @ [''0123456789'' ! nat (n mod 10)])"
  by pat_completeness auto
termination
  by (relation "measure nat") auto

declare show_nat.simps [simp del]

definition show_int :: "int \<Rightarrow> string" where
  "show_int i = (if i < 0 then CHR ''-'' # show_nat (- i) else show_nat i)"

definition zero_pad :: "nat \<Rightarrow> string \<Rightarrow> string" where
  "zero_pad w ds = replicate (w - length ds) CHR ''0'' @ ds"

text \<open>
  The integer nearest to \<open>a / b\<close> (for \<open>0 \<le> a\<close>, \<open>0 < b\<close>), ties going to the even
  neighbour: CPython formats and parses floats correctly rounded, in round-half-even mode.
\<close>

definition round_half_even :: "int \<Rightarrow> int \<Rightarrow> int" where
  "round_half_even a b =
     (let q = a div b; r = a mod b
      in if 2 * r < b then q
         else if b < 2 * r then q + 1
         else if even q then q else q + 1)"

text \<open>\<open>|x| * 10 ^ 6\<close> rounded to an integer, for the double \<open>x = m * 2 ^ e\<close>.\<close>

definition scaled_micro :: "int \<Rightarrow> int \<Rightarrow> int" where
  "scaled_micro m e =
     (if 0 \<le> e then m * 2 ^ nat e * 1000000
      else round_half_even (m * 1000000) (2 ^ nat (- e)))"

definition sign_str :: "bool \<Rightarrow> string" where
  "sign_str neg = (if neg then ''-'' else '''')"

text \<open>
  \<^verbatim>\<open>'%f' % x\<close>: fixed notation with the default precision of six fractional digits. The sign
  is kept even when the digits round to zero (\<^verbatim>\<open>'%f' % -1e-9\<close> is \<^verbatim>\<open>-0.000000\<close>).
\<close>

fun fmt_f :: "pyfloat \<Rightarrow> string" where
  "fmt_f (Finite neg m e) =
     (let n = scaled_micro m e
      in sign_str neg @ show_nat (n div 1000000) @ ''.'' @ zero_pad 6 (show_nat (n mod 1000000)))"
| "fmt_f (Infinity neg) = sign_str neg @ ''inf''"
| "fmt_f NaN = ''nan''"

text \<open>Number of binary digits of a positive integer (Python's \<open>int.bit_length\<close>).\<close>

function bit_length :: "int \<Rightarrow> int" where
  "bit_length n = (if n \<le> 0 then 0 else 1 + bit_length (n div 2))"
  by pat_completeness auto
termination
  by (relation "measure nat") auto

declare bit_length.simps [simp del]

text \<open>\<open>scale2 a b e\<close> is numerator and denominator of \<open>(a / b) / 2 ^ e\<close>.\<close>

definition scale2 :: "int \<Rightarrow> int \<Rightarrow> int \<Rightarrow> int \<times> int" where
  "scale2 a b e = (if 0 \<le> e then (a, b * 2 ^ nat e) else (a * 2 ^ nat (- e), b))"

text \<open>
  The double nearest to the non-negative rational \<open>a / b\<close> (ties to even): 53 bits of
  mantissa, exponents from \<open>-1074\<close> (subnormals) to \<open>971\<close>, overflow to infinity.
\<close>

definition nearest_double :: "int \<Rightarrow> int \<Rightarrow> pyfloat" where
  "nearest_double a b =
     (if a = 0 then Finite False 0 0
      else
        let e0 = bit_length a - bit_length b - 53;
            e1 = (case scale2 a b e0 of (n0, d0) \<Rightarrow>
                    if 9007199254740992 * d0 \<le> n0 then e0 + 1 else e0);
            e = max e1 (- 1074);
            m = (case scale2 a b e of (n, d) \<Rightarrow> round_half_even n d);
            m' = (if m = 9007199254740992 then 4503599627370496 else m);
            e' = (if m = 9007199254740992 then e + 1 else e)
        in if 971 < e' then Infinity False else Finite False m' e')"

text \<open>
  A decimal float literal of the Python source: \<open>float_literal d k\<close> is the literal whose
  digits, read without the point, are \<open>d\<close> and which has \<open>k\<close> digits after the point,
  so \<^verbatim>\<open>185.583\<close> is \<open>float_literal 185583 3\<close>. Python evaluates it to the nearest double.
\<close>

definition float_literal :: "int \<Rightarrow> nat \<Rightarrow> pyfloat" where
  "float_literal d k = nearest_double d (10 ^ k)"

text \<open>One conversion: the character after \<^verbatim>\<open>%\<close> applied to the next argument.\<close>

fun convert :: "char \<Rightarrow> pyval \<Rightarrow> pyerror + string" where
  "convert k (PyStr s) =
     (if k = CHR ''s'' then Inr s
      else if k = CHR ''f'' \<or> k = CHR ''d'' then Inl TypeError
      else Inl Unsupported)"
| "convert k (PyFloat x) =
     (if k = CHR ''f'' then Inr (fmt_f x) else Inl Unsupported)"
| "convert k (PyInt i) =
     (if k = CHR ''d'' \<or> k = CHR ''s'' then Inr (show_int i) else Inl Unsupported)"

definition prepend :: "char \<Rightarrow> pyerror + string \<Rightarrow> pyerror + string" where
  "prepend c r = (case r of Inl err \<Rightarrow> Inl err | Inr s \<Rightarrow> Inr (c # s))"

text \<open>
  \<^verbatim>\<open>template % args\<close>, scanning left to right and raising at the first fault: a lone
  \<^verbatim>\<open>%\<close> at the end is a \<open>ValueError\<close> (incomplete format), a conversion with no
  argument left a \<open>TypeError\<close> (not enough arguments), arguments left over at the end a
  \<open>TypeError\<close> (not all arguments converted). \<^verbatim>\<open>%%\<close> writes a percent sign. A right
  operand that is not a tuple, as in cell 5, is a single argument.
\<close>

fun py_format :: "string \<Rightarrow> pyval list \<Rightarrow> pyerror + string" where
  "py_format [] [] = Inr []"
| "py_format [] (a # as) = Inl TypeError"
| "py_format [c] args =
     (if c = CHR ''%'' then Inl ValueError else prepend c (py_format [] args))"
| "py_format (c # k # cs) args =
     (if c \<noteq> CHR ''%'' then prepend c (py_format (k # cs) args)
      else if k = CHR ''%'' then prepend CHR ''%'' (py_format cs args)
      else (case args of
              [] \<Rightarrow> Inl TypeError
            | a # as \<Rightarrow>
                (case convert k a of
                   Inl err \<Rightarrow> Inl err
                 | Inr s \<Rightarrow>
                     (case py_format cs as of
                        Inl err \<Rightarrow> Inl err
                      | Inr t \<Rightarrow> Inr (s @ t)))))"

section \<open>The queries of the notebook\<close>

text \<open>
  Cell 5 (query by dataset identifier):
  \<^verbatim>\<open>query = """SELECT *\<close>, \<^verbatim>\<open>FROM ivoa.ObsCore\<close>, \<^verbatim>\<open>WHERE dp_id = '%s'""" % (dp_id)\<close>
  on three lines of a triple-quoted string.
\<close>

definition byIdentifier_template :: string where
  "byIdentifier_template =
     ''SELECT *\<newline>FROM ivoa.ObsCore\<newline>WHERE dp_id = '' @ [sq] @ ''%s'' @ [sq]"

definition byIdentifier :: "string \<Rightarrow> pyerror + string" where
  "byIdentifier dp_id = py_format byIdentifier_template [PyStr dp_id]"

text \<open>
  The alternative the comment of cell 5 gives, on the ivorn
  \<^verbatim>\<open>ivorn = 'ivo://eso.org/ID?' + dp_id\<close>.
\<close>

definition byPublisherDid_template :: string where
  "byPublisherDid_template =
     ''SELECT *\<newline>FROM ivoa.ObsCore\<newline>WHERE obs_publisher_did = '' @ [sq] @ ''%s'' @ [sq]"

definition byPublisherDid :: "string \<Rightarrow> pyerror + string" where
  "byPublisherDid dp_id =
     py_format byPublisherDid_template [PyStr (''ivo://eso.org/ID?'' @ dp_id)]"

text \<open>Cell 12 (query by the data provider's file name).\<close>

definition byOriginalFilename_template :: string where
  "byOriginalFilename_template =
     ''SELECT *\<newline>FROM ivoa.ObsCore\<newline>WHERE obs_creator_did = '' @ [sq] @ ''%s'' @ [sq]"

definition byOriginalFilename :: "string \<Rightarrow> pyerror + string" where
  "byOriginalFilename origfile =
     py_format byOriginalFilename_template [PyStr (''ivo://eso.org/origfile?'' @ origfile)]"

text \<open>
  Cell 17 (cone search): the template ends with a line break, and the three numbers are
  \<^verbatim>\<open>(pos.ra.degree, pos.dec.degree, sr)\<close>.
\<close>

definition coneSearch_template :: string where
  "coneSearch_template =
     ''SELECT *\<newline>FROM ivoa.ObsCore\<newline>WHERE intersects(s_region, circle('' @ [sq, sq]
       @ '', %f, %f, %f))=1\<newline>''"

definition coneSearch :: "pyfloat \<Rightarrow> pyfloat \<Rightarrow> pyfloat \<Rightarrow> pyerror + string" where
  "coneSearch ra dec sr = py_format coneSearch_template [PyFloat ra, PyFloat dec, PyFloat sr]"

text \<open>
  The other queries are written into the notebook as fixed strings: the point, the
  region, the polygon and the filters are part of the literal. Cell 23 (point in
  footprint):
\<close>

definition containsPoint_query :: string where
  "containsPoint_query =
     ''SELECT t_min, abmaglim, dataproduct_type as type, dp_id, obs_release_date\<newline>''
       @ ''FROM ivoa.ObsCore\<newline>''
       @ ''WHERE CONTAINS(point('' @ [sq, sq] @ '', 193.815, 0.099819), s_region)=1\<newline>''
       @ ''AND dataproduct_type in ('image', 'cube')\<newline>''
       @ ''ORDER BY t_min asc''"



text \<open>
  Cell 29 (search by polygon): one fixed string, split here into the text around the
  polygon's coordinates and the coordinates themselves (the contour of GW170817).
\<close>

definition gw170817_vertices :: string where
  "gw170817_vertices =
     ''196.8311,-23.5212, 196.7432,-23.3586, 196.6553,-23.1962, 196.4795,-23.0339, ''
       @ ''196.3916,-22.8719, 196.3037,-22.71, 196.2158,-22.5484, 196.1279,-22.3869, ''
       @ ''196.04,-22.2257, 195.9521,-22.0646, 195.8643,-21.9037, 195.7764,-21.7429, ''
       @ ''195.7764,-21.5824, 195.6885,-21.422, 195.6006,-21.2618, 195.5127,-21.1018, ''
       @ ''195.4248,-20.942, 195.3369,-20.7823, 195.3369,-20.6228, 195.249,-20.4634, ''
       @ ''195.1611,-20.3043, 195.1611,-20.1452, 195.0732,-19.9864, 194.9854,-19.8277, ''
       @ ''194.8975,-19.6692, 194.8975,-19.5108, 194.8096,-19.3526, 194.7217,-19.1945, ''
       @ ''194.6338,-19.0366, 194.6338,-18.8788, 194.5459,-18.7212, 194.458,-18.5637, ''
       @ ''194.458,-18.4064, 194.3701,-18.2492, 194.458,-18.0922, 194.458,-17.9353, ''
       @ ''194.6338,-18.0137, 194.8096,-18.1707, 194.9854,-18.3278, 195.0732,-18.4851, ''
       @ ''195.1611,-18.6425, 195.249,-18.8, 195.3369,-18.9577, 195.4248,-19.1155, ''
       @ ''195.5127,-19.2735, 195.6006,-19.4317, 195.6885,-19.59, 195.8643,-19.7484, ''
       @ ''195.9521,-19.907, 196.1279,-20.0658, 196.2158,-20.2247, 196.3916,-20.3838, ''
       @ ''196.4795,-20.5431, 196.5674,-20.7025, 196.6553,-20.8621, 196.7432,-21.0219, ''
       @ ''196.8311,-21.1818, 196.9189,-21.3419, 196.9189,-21.5022, 197.0068,-21.6626, ''
       @ ''197.0947,-21.8233, 197.1826,-21.9841, 197.2705,-22.1451, 197.3584,-22.3063, ''
       @ ''197.4463,-22.4676, 197.5342,-22.6292, 197.6221,-22.7909, 197.71,-22.9529, ''
       @ ''197.7979,-23.115, 197.7979,-23.2773, 197.8857,-23.4399, 197.9736,-23.6026, ''
       @ ''198.0615,-23.7655, 198.1494,-23.9287, 198.2373,-24.092, 198.3252,-24.2556, ''
       @ ''198.4131,-24.4193, 198.501,-24.5833, 198.501,-24.7475, 198.5889,-24.9119, ''
       @ ''198.6768,-25.0765, 198.7646,-25.2414, 198.8525,-25.4064, 198.9404,-25.5717, ''
       @ ''199.0283,-25.7373, 199.0283,-25.903, 199.1162,-26.069, 199.1162,-26.2352, ''
       @ ''199.2041,-26.4017, 199.2041,-26.5684, 199.2041,-26.7353, 199.2041,-26.9025, ''
       @ ''199.1162,-26.9025, 198.9404,-26.7353, 198.7646,-26.5684, 198.5889,-26.4017, ''
       @ ''198.501,-26.2352, 198.4131,-26.069, 198.2373,-25.903, 198.1494,-25.7373, ''
       @ ''198.0615,-25.5717, 197.9736,-25.4064, 197.8857,-25.2414, 197.7979,-25.0765, ''
       @ ''197.71,-24.9119, 197.6221,-24.7475, 197.5342,-24.5833, 197.3584,-24.4193, ''
       @ ''197.2705,-24.2556, 197.1826,-24.092, 197.0947,-23.9287, 197.0068,-23.7655, ''
       @ ''196.9189,-23.6026''"






section \<open>Reading a generated query\<close>

text \<open>
  What the claims say about a query is read off its text by a small ADQL reader: keywords
  and function names are matched without regard to case and never inside a string literal
  (between single quotes), and the operands of a function call are split at the commas
  of its own nesting depth.
\<close>

definition upper_char :: "char \<Rightarrow> char" where
  "upper_char c =
     (case map_of (zip ''abcdefghijklmnopqrstuvwxyz'' ''ABCDEFGHIJKLMNOPQRSTUVWXYZ'') c of
        None \<Rightarrow> c
      | Some u \<Rightarrow> u)"

text \<open>\<open>starts_with_ci kw s\<close>: the text \<open>s\<close> begins with the upper-case word \<open>kw\<close>.\<close>

fun starts_with_ci :: "string \<Rightarrow> string \<Rightarrow> bool" where
  "starts_with_ci [] s = True"
| "starts_with_ci (k # ks) [] = False"
| "starts_with_ci (k # ks) (c # cs) = (upper_char c = k \<and> starts_with_ci ks cs)"

text \<open>
  Occurrences of \<open>kw\<close> outside string literals; \<open>inq\<close> tells whether the scan is
  inside a literal.
\<close>

fun count_kw :: "string \<Rightarrow> bool \<Rightarrow> string \<Rightarrow> nat" where
  "count_kw kw inq [] = 0"
| "count_kw kw inq (c # cs) =
     (if c = sq then count_kw kw (\<not> inq) cs
      else if inq then count_kw kw inq cs
      else if starts_with_ci kw (c # cs) then Suc (count_kw kw inq cs)
      else count_kw kw inq cs)"

text \<open>The text from the first occurrence of \<open>kw\<close> on, and the text before it.\<close>

fun after_kw :: "string \<Rightarrow> bool \<Rightarrow> string \<Rightarrow> string" where
  "after_kw kw inq [] = []"
| "after_kw kw inq (c # cs) =
     (if c = sq then after_kw kw (\<not> inq) cs
      else if inq then after_kw kw inq cs
      else if starts_with_ci kw (c # cs) then c # cs
      else after_kw kw inq cs)"


definition is_space :: "char \<Rightarrow> bool" where
  "is_space c = (c = CHR '' '' \<or> c = nl)"

definition trim :: "string \<Rightarrow> string" where
  "trim s = rev (dropWhile is_space (rev (dropWhile is_space s)))"

text \<open>
  The operands of a call, read from just after its opening parenthesis: \<open>d\<close> is the
  depth of nested parentheses, \<open>acc\<close> the operand being read. \<open>None\<close> when the call
  is never closed.
\<close>

fun split_args :: "nat \<Rightarrow> bool \<Rightarrow> string \<Rightarrow> string \<Rightarrow> string list option" where
  "split_args d inq acc [] = None"
| "split_args d inq acc (c # cs) =
     (if c = sq then split_args d (\<not> inq) (acc @ [c]) cs
      else if inq then split_args d inq (acc @ [c]) cs
      else if c = CHR ''('' then split_args (Suc d) inq (acc @ [c]) cs
      else if c = CHR '')'' then
        (case d of
           0 \<Rightarrow> Some [trim acc]
         | Suc d' \<Rightarrow> split_args d' inq (acc @ [c]) cs)
      else if c = CHR '','' \<and> d = 0 then
        (case split_args 0 inq [] cs of
           None \<Rightarrow> None
         | Some rest \<Rightarrow> Some (trim acc # rest))
      else split_args d inq (acc @ [c]) cs)"

text \<open>
  The operand lists of every call of \<open>f\<close> in a query, in order of appearance; \<open>f\<close> is
  the upper-case function name with its opening parenthesis, such as \<open>CONTAINS(\<close>.
\<close>

fun calls :: "string \<Rightarrow> bool \<Rightarrow> string \<Rightarrow> string list option list" where
  "calls f inq [] = []"
| "calls f inq (c # cs) =
     (if c = sq then calls f (\<not> inq) cs
      else if inq then calls f inq cs
      else if starts_with_ci f (c # cs) then
        split_args 0 False [] (drop (length f) (c # cs)) # calls f inq cs
      else calls f inq cs)"

text \<open>The value of a decimal numeral: digits, optionally a point and more digits.\<close>

definition digit_value :: "char \<Rightarrow> int option" where
  "digit_value c = map_of (zip ''0123456789'' [0, 1, 2, 3, 4, 5, 6, 7, 8, 9]) c"

fun parse_digits :: "int \<Rightarrow> string \<Rightarrow> int option" where
  "parse_digits n [] = Some n"
| "parse_digits n (c # cs) =
     (case digit_value c of
        None \<Rightarrow> None
      | Some d \<Rightarrow> parse_digits (10 * n + d) cs)"

definition parse_nat :: "string \<Rightarrow> int option" where
  "parse_nat s = (if s = [] then None else parse_digits 0 s)"

definition unsigned_value :: "string \<Rightarrow> rat option" where
  "unsigned_value s =
     (let ip = takeWhile (\<lambda>c. c \<noteq> CHR ''.'') s;
          rest = dropWhile (\<lambda>c. c \<noteq> CHR ''.'') s
      in case rest of
           [] \<Rightarrow> map_option of_int (parse_nat ip)
         | p # fp \<Rightarrow>
             (case (parse_nat ip, parse_nat fp) of
                (Some i, Some f) \<Rightarrow> Some (of_int i + of_int f / 10 ^ length fp)
              | _ \<Rightarrow> None))"

definition decimal_value :: "string \<Rightarrow> rat option" where
  "decimal_value s =
     (case s of
        [] \<Rightarrow> None
      | c # cs \<Rightarrow>
          if c = CHR ''-'' then map_option uminus (unsigned_value cs) else unsigned_value s)"

text \<open>
  Reading a cone-search query back: the three numbers of its \<open>circle\<close> literal, after
  the coordinate-system operand.
\<close>

definition circle_numbers :: "string \<Rightarrow> rat option list option" where
  "circle_numbers q =
     (case calls ''CIRCLE('' False q of
        [Some (frame # nums)] \<Rightarrow> Some (map decimal_value nums)
      | _ \<Rightarrow> None)"

text \<open>
  The part of a query that constrains rows is its text from the first \<open>WHERE\<close> on; what
  it shows is its text before the first \<open>FROM\<close>.
\<close>

definition constraint_part :: "string \<Rightarrow> string" where
  "constraint_part q = after_kw ''WHERE'' False q"







section \<open>Sending a query\<close>

text \<open>
  \<^verbatim>\<open>tapobs.search(query=query, maxrec=n)\<close> is a call of the pyvo library, outside the
  notebook; it is a parameter here. It takes the query text and the optional row cap, acts
  on the world \<open>'w\<close> (the network and the archive) and either raises an exception \<open>'e\<close>
  or returns the rows of the result table.
\<close>

type_synonym ('e, 'r, 'w) tap_service =
  "string \<Rightarrow> int option \<Rightarrow> 'w \<Rightarrow> ('e + 'r list) \<times> 'w"

text \<open>What stops a cell: an exception of the library, or of the \<open>%\<close> operator.\<close>

datatype 'e cell_error = Raised 'e | FormatError pyerror

text \<open>
  The statement \<^verbatim>\<open>res = tapobs.search(query=query, maxrec=n)\<close> of cells 7, 18, 23, 26, 29,
  31, 34 and 36: one call, outside any \<open>try\<close> and any loop.
\<close>

definition search :: "('e, 'r, 'w) tap_service \<Rightarrow> string \<Rightarrow> int option \<Rightarrow> 'w
    \<Rightarrow> ('e cell_error + 'r list) \<times> 'w" where
  "search svc query maxrec w =
     (case svc query maxrec w of
        (Inl ex, w') \<Rightarrow> (Inl (Raised ex), w')
      | (Inr res, w') \<Rightarrow> (Inr res, w'))"

text \<open>
  Cell 18 and the cells after it go on with
  \<^verbatim>\<open>print("Num matching datasets: %d" % (len(res)))\<close>; the result is the table and the
  line printed.
\<close>

definition search_and_count :: "('e, 'r, 'w) tap_service \<Rightarrow> string \<Rightarrow> int option \<Rightarrow> 'w
    \<Rightarrow> ('e cell_error + 'r list \<times> string) \<times> 'w" where
  "search_and_count svc query maxrec w =
     (case search svc query maxrec w of
        (Inl err, w') \<Rightarrow> (Inl err, w')
      | (Inr res, w') \<Rightarrow>
          (case py_format ''Num matching datasets: %d'' [PyInt (int (length res))] of
             Inl err \<Rightarrow> (Inl (FormatError err), w')
           | Inr line \<Rightarrow> (Inr (res, line), w')))"

text \<open>Cells 17 and 18 together: build the cone-search query, send it with \<open>maxrec=1000\<close>.\<close>

definition coneSearch_cells :: "('e, 'r, 'w) tap_service \<Rightarrow> pyfloat \<Rightarrow> pyfloat \<Rightarrow> pyfloat \<Rightarrow> 'w
    \<Rightarrow> ('e cell_error + 'r list \<times> string) \<times> 'w" where
  "coneSearch_cells svc ra dec sr w =
     (case coneSearch ra dec sr of
        Inl err \<Rightarrow> (Inl (FormatError err), w)
      | Inr query \<Rightarrow> search_and_count svc query (Some 1000) w)"

text \<open>
  Two services to run the cells against: an archive in which no row matches any query, and
  one that is unreachable. Their world is the number of requests received so far.
\<close>

definition empty_archive :: "(string, string, nat) tap_service" where
  "empty_archive query maxrec n = (Inr [], Suc n)"

definition unreachable_archive :: "(string, string, nat) tap_service" where
  "unreachable_archive query maxrec n = (Inl ''timeout'', Suc n)"

section \<open>Facts about the model\<close>

subsection \<open>Numbers\<close>

text \<open>
  The doubles of the float literals used below, each within half a unit in the last place
  of the decimal it is written as (\<^verbatim>\<open>185.583\<close>, \<^verbatim>\<open>13.093\<close>, \<^verbatim>\<open>0.0417\<close>,
  \<^verbatim>\<open>0.00000004\<close>, \<^verbatim>\<open>0.00000005\<close>).
\<close>

lemma float_literal_nearest:
  "float_literal 185583 3 = Finite False 6529621325361709 (- 45)"
  "\<bar>6529621325361709 * pow2 (- 45) - 185583 / 1000\<bar> * 2 \<le> pow2 (- 45)"
  "float_literal 13093 3 = Finite False 7370703740145238 (- 49)"
  "\<bar>7370703740145238 * pow2 (- 49) - 13093 / 1000\<bar> * 2 \<le> pow2 (- 49)"
  "float_literal 417 4 = Finite False 6009603342763190 (- 57)"
  "\<bar>6009603342763190 * pow2 (- 57) - 417 / 10000\<bar> * 2 \<le> pow2 (- 57)"
  "float_literal 4 8 = Finite False 6044629098073146 (- 77)"
  "\<bar>6044629098073146 * pow2 (- 77) - 4 / 100000000\<bar> * 2 \<le> pow2 (- 77)"
  "float_literal 5 8 = Finite False 7555786372591432 (- 77)"
  "\<bar>7555786372591432 * pow2 (- 77) - 5 / 100000000\<bar> * 2 \<le> pow2 (- 77)"
  by code_simp+

text \<open>
  Two known doubles: \<^verbatim>\<open>0.1\<close> is \<open>0x1.999999999999ap-4\<close> and \<^verbatim>\<open>0.5\<close> is exact. And the
  rounding of \<^verbatim>\<open>%f\<close>: a tie goes to the even digit, the sign survives rounding to zero.
\<close>

lemma float_literal_examples:
  "float_literal 1 1 = Finite False 7205759403792794 (- 56)"
  "float_literal 5 1 = Finite False 4503599627370496 (- 53)"
  "float_value (float_literal 5 1) = Some (1 / 2)"
  by code_simp+

lemma fmt_f_examples:
  "fmt_f (float_literal 25 1) = ''2.500000''"
  "fmt_f (Finite False 1 (- 21)) = ''0.000000''"
  "fmt_f (Finite False 3 (- 21)) = ''0.000001''"
  "fmt_f (Finite True 1 (- 30)) = ''-0.000000''"
  "fmt_f (Infinity True) = ''-inf''"
  by code_simp+

text \<open>A number below \<open>10 ^ k\<close> has at most \<open>k\<close> digits.\<close>

lemma show_nat_length:
  "0 \<le> n \<Longrightarrow> n < 10 ^ k \<Longrightarrow> 0 < k \<Longrightarrow> length (show_nat n) \<le> k"
proof (induction n arbitrary: k rule: show_nat.induct)
  case (1 n)
  show ?case
  proof (cases "n < 10")
    case True
    then have "show_nat n = [''0123456789'' ! nat n]"
      by (subst show_nat.simps) simp
    with 1(4) show ?thesis by simp
  next
    case False
    then have unfold: "show_nat n = show_nat (n div 10) @ [''0123456789'' ! nat (n mod 10)]"
      by (subst show_nat.simps) simp
    from False 1(3) have "1 < k"
      by (cases "k = 1") (use 1(4) in auto)
    then obtain j where k: "k = Suc j" and j: "0 < j"
      by (cases k) auto
    from 1(3) k have "n < 10 * 10 ^ j"
      by simp
    then have "n div 10 < 10 ^ j"
      by linarith
    moreover from False have "0 \<le> n div 10" by simp
    ultimately have "length (show_nat (n div 10)) \<le> j"
      using 1(1) [OF False] j by simp
    with unfold k show ?thesis by simp
  qed
qed

text \<open>\<^verbatim>\<open>%f\<close> writes every finite double with exactly six digits after the point.\<close>

lemma fmt_f_six_fractional_digits:
  "fmt_f (Finite neg m e) =
     sign_str neg @ show_nat (scaled_micro m e div 1000000) @ ''.''
       @ zero_pad 6 (show_nat (scaled_micro m e mod 1000000))
   \<and> length (zero_pad 6 (show_nat (scaled_micro m e mod 1000000))) = 6"
proof -
  have "length (show_nat (scaled_micro m e mod 1000000)) \<le> 6"
    by (rule show_nat_length) simp_all
  then show ?thesis
    by (simp add: zero_pad_def Let_def)
qed

subsection \<open>Formatting\<close>

text \<open>The operator's faults, on small templates.\<close>

lemma py_format_faults:
  "py_format ''%s and %s'' [PyStr ''a''] = Inl TypeError"
  "py_format ''%s'' [PyStr ''a'', PyStr ''b''] = Inl TypeError"
  "py_format ''100%'' [] = Inl ValueError"
  "py_format ''%f'' [PyStr ''a''] = Inl TypeError"
  "py_format ''100%% of %s'' [PyStr ''a''] = Inr ''100% of a''"
  by (simp_all add: prepend_def)

text \<open>
  The query of cell 5 for any identifier: the template's text with the identifier put
  between the quotes as it is. The same for the ivorn of the comment, and for the three
  numbers of cell 17.
\<close>

lemma byIdentifier_text:
  "byIdentifier ident =
     Inr (''SELECT *\<newline>FROM ivoa.ObsCore\<newline>WHERE dp_id = '' @ [sq] @ ident @ [sq])"
  by (simp add: byIdentifier_def byIdentifier_template_def prepend_def)

lemma byPublisherDid_text:
  "byPublisherDid ident =
     Inr (''SELECT *\<newline>FROM ivoa.ObsCore\<newline>WHERE obs_publisher_did = '' @ [sq]
          @ ''ivo://eso.org/ID?'' @ ident @ [sq])"
  by (simp add: byPublisherDid_def byPublisherDid_template_def prepend_def)

lemma coneSearch_text:
  "coneSearch ra dec sr =
     Inr (''SELECT *\<newline>FROM ivoa.ObsCore\<newline>WHERE intersects(s_region, circle('' @ [sq, sq]
          @ '', '' @ fmt_f ra @ '', '' @ fmt_f dec @ '', '' @ fmt_f sr @ ''))=1\<newline>'')"
  by (simp add: coneSearch_def coneSearch_template_def prepend_def)

lemma coneSearch_cells_text:
  "coneSearch_cells svc ra dec sr w =
     search_and_count svc
       (''SELECT *\<newline>FROM ivoa.ObsCore\<newline>WHERE intersects(s_region, circle('' @ [sq, sq]
          @ '', '' @ fmt_f ra @ '', '' @ fmt_f dec @ '', '' @ fmt_f sr @ ''))=1\<newline>'')
       (Some 1000) w"
  by (simp add: coneSearch_cells_def coneSearch_def coneSearch_template_def prepend_def)

lemma fmt_f_tiny:
  "fmt_f (float_literal 4 8) = ''0.000000''"
  "fmt_f (float_literal 5 8) = ''0.000000''"
  by code_simp+

subsection \<open>Reading\<close>

text \<open>The upper-case form of every printable character, as rewrite rules.\<close>

lemma upper_char_table:
  "upper_char CHR '' '' = CHR '' ''"
  "upper_char CHR ''!'' = CHR ''!''"
  "upper_char CHR ''#'' = CHR ''#''"
  "upper_char CHR ''$'' = CHR ''$''"
  "upper_char CHR ''%'' = CHR ''%''"
  "upper_char CHR ''&'' = CHR ''&''"
  "upper_char CHR ''('' = CHR ''(''"
  "upper_char CHR '')'' = CHR '')''"
  "upper_char CHR ''*'' = CHR ''*''"
  "upper_char CHR ''+'' = CHR ''+''"
  "upper_char CHR '','' = CHR '',''"
  "upper_char CHR ''-'' = CHR ''-''"
  "upper_char CHR ''.'' = CHR ''.''"
  "upper_char CHR ''/'' = CHR ''/''"
  "upper_char CHR ''0'' = CHR ''0''"
  "upper_char CHR ''1'' = CHR ''1''"
  "upper_char CHR ''2'' = CHR ''2''"
  "upper_char CHR ''3'' = CHR ''3''"
  "upper_char CHR ''4'' = CHR ''4''"
  "upper_char CHR ''5'' = CHR ''5''"
  "upper_char CHR ''6'' = CHR ''6''"
  "upper_char CHR ''7'' = CHR ''7''"
  "upper_char CHR ''8'' = CHR ''8''"
  "upper_char CHR ''9'' = CHR ''9''"
  "upper_char CHR '':'' = CHR '':''"
  "upper_char CHR '';'' = CHR '';''"
  "upper_char CHR ''<'' = CHR ''<''"
  "upper_char CHR ''='' = CHR ''=''"
  "upper_char CHR ''>'' = CHR ''>''"
  "upper_char CHR ''?'' = CHR ''?''"
  "upper_char CHR ''@'' = CHR ''@''"
  "upper_char CHR ''A'' = CHR ''A''"
  "upper_char CHR ''B'' = CHR ''B''"
  "upper_char CHR ''C'' = CHR ''C''"
  "upper_char CHR ''D'' = CHR ''D''"
  "upper_char CHR ''E'' = CHR ''E''"
  "upper_char CHR ''F'' = CHR ''F''"
  "upper_char CHR ''G'' = CHR ''G''"
  "upper_char CHR ''H'' = CHR ''H''"
  "upper_char CHR ''I'' = CHR ''I''"
  "upper_char CHR ''J'' = CHR ''J''"
  "upper_char CHR ''K'' = CHR ''K''"
  "upper_char CHR ''L'' = CHR ''L''"
  "upper_char CHR ''M'' = CHR ''M''"
  "upper_char CHR ''N'' = CHR ''N''"
  "upper_char CHR ''O'' = CHR ''O''"
  "upper_char CHR ''P'' = CHR ''P''"
  "upper_char CHR ''Q'' = CHR ''Q''"
  "upper_char CHR ''R'' = CHR ''R''"
  "upper_char CHR ''S'' = CHR ''S''"
  "upper_char CHR ''T'' = CHR ''T''"
  "upper_char CHR ''U'' = CHR ''U''"
  "upper_char CHR ''V'' = CHR ''V''"
  "upper_char CHR ''W'' = CHR ''W''"
  "upper_char CHR ''X'' = CHR ''X''"
  "upper_char CHR ''Y'' = CHR ''Y''"
  "upper_char CHR ''Z'' = CHR ''Z''"
  "upper_char CHR ''['' = CHR ''[''"
  "upper_char CHR '']'' = CHR '']''"
  "upper_char CHR ''^'' = CHR ''^''"
  "upper_char CHR ''_'' = CHR ''_''"
  "upper_char CHR ''`'' = CHR ''`''"
  "upper_char CHR ''a'' = CHR ''A''"
  "upper_char CHR ''b'' = CHR ''B''"
  "upper_char CHR ''c'' = CHR ''C''"
  "upper_char CHR ''d'' = CHR ''D''"
  "upper_char CHR ''e'' = CHR ''E''"
  "upper_char CHR ''f'' = CHR ''F''"
  "upper_char CHR ''g'' = CHR ''G''"
  "upper_char CHR ''h'' = CHR ''H''"
  "upper_char CHR ''i'' = CHR ''I''"
  "upper_char CHR ''j'' = CHR ''J''"
  "upper_char CHR ''k'' = CHR ''K''"
  "upper_char CHR ''l'' = CHR ''L''"
  "upper_char CHR ''m'' = CHR ''M''"
  "upper_char CHR ''n'' = CHR ''N''"
  "upper_char CHR ''o'' = CHR ''O''"
  "upper_char CHR ''p'' = CHR ''P''"
  "upper_char CHR ''q'' = CHR ''Q''"
  "upper_char CHR ''r'' = CHR ''R''"
  "upper_char CHR ''s'' = CHR ''S''"
  "upper_char CHR ''t'' = CHR ''T''"
  "upper_char CHR ''u'' = CHR ''U''"
  "upper_char CHR ''v'' = CHR ''V''"
  "upper_char CHR ''w'' = CHR ''W''"
  "upper_char CHR ''x'' = CHR ''X''"
  "upper_char CHR ''y'' = CHR ''Y''"
  "upper_char CHR ''z'' = CHR ''Z''"
  "upper_char CHR ''{'' = CHR ''{''"
  "upper_char CHR ''|'' = CHR ''|''"
  "upper_char CHR ''}'' = CHR ''}''"
  "upper_char CHR ''~'' = CHR ''~''"
  "upper_char nl = nl"
  "upper_char sq = sq"
  by (simp_all add: upper_char_def)

text \<open>Inside a string literal nothing is counted, up to the quote that closes it.\<close>

lemma count_kw_inside_literal:
  "sq \<notin> set s \<Longrightarrow> count_kw kw True (s @ sq # rest) = count_kw kw False rest"
  by (induction s) auto









lemma gw170817_first_last:
  "take 17 gw170817_vertices = ''196.8311,-23.5212''"
  "drop (length gw170817_vertices - 17) gw170817_vertices = ''196.9189,-23.6026''"
  by (simp_all add: gw170817_vertices_def)











section \<open>The claims\<close>

subsection \<open>Query by identifier\<close>

text \<open>
  C1, as amended. For every identifier that contains no single quote, the query built by
  \<open>byIdentifier\<close> is the template's text with the identifier between the quotes,
  character for character; it has exactly one \<open>WHERE\<close> clause, and that clause is
  \<open>WHERE dp_id = '<id>'\<close>. (The text of the query is the same for every identifier, with
  quotes or without: \<open>byIdentifier_text\<close>.)
\<close>

theorem byIdentifier_single_where:
  assumes "sq \<notin> set ident"
  shows "\<exists>q. byIdentifier ident = Inr q
           \<and> q = ''SELECT *\<newline>FROM ivoa.ObsCore\<newline>WHERE dp_id = '' @ [sq] @ ident @ [sq]
           \<and> count_kw ''WHERE'' False q = 1
           \<and> constraint_part q = ''WHERE dp_id = '' @ [sq] @ ident @ [sq]"
  using assms
  by (simp add: byIdentifier_text constraint_part_def upper_char_table count_kw_inside_literal)

text \<open>The theorem at the identifier of the notebook.\<close>

theorem byIdentifier_single_where_witness:
  "sq \<notin> set ''ADP.2013-12-10T16:12:17.697''
   \<and> (\<exists>q. byIdentifier ''ADP.2013-12-10T16:12:17.697'' = Inr q
          \<and> q = ''SELECT *\<newline>FROM ivoa.ObsCore\<newline>WHERE dp_id = '' @ [sq]
                @ ''ADP.2013-12-10T16:12:17.697'' @ [sq]
          \<and> count_kw ''WHERE'' False q = 1
          \<and> constraint_part q
              = ''WHERE dp_id = '' @ [sq] @ ''ADP.2013-12-10T16:12:17.697'' @ [sq])"
  using byIdentifier_single_where [of "''ADP.2013-12-10T16:12:17.697''"]
  by simp

text \<open>
  C1 as stated fails: the identifier is interpolated without escaping, so a non-empty
  identifier with quotes in it closes the literal and brings a second \<open>WHERE\<close> clause.
\<close>

theorem byIdentifier_injection_counterexample:
  "map_sum id (count_kw ''WHERE'' False)
     (byIdentifier
        (''x' OR dp_id IN (SELECT dp_id FROM ivoa.ObsCore WHERE 'a'='a') OR dp_id = 'y''))
   = Inr 2"
  by (simp add: byIdentifier_text upper_char_table)

text \<open>
  C2, as amended. For the identifier \<open>ADP.2013-12-10T16:12:17.697\<close> the query is the
  three lines \<open>SELECT *\<close>, \<open>FROM ivoa.ObsCore\<close>, \<open>WHERE dp_id = 'ADP.2013-12-10T16:12:17.697'\<close>,
  separated by line breaks; with each line break replaced by a blank it is the one-line
  text of the scenario.
\<close>

theorem byIdentifier_scenario:
  "byIdentifier ''ADP.2013-12-10T16:12:17.697''
     = Inr (''SELECT *\<newline>FROM ivoa.ObsCore\<newline>WHERE dp_id = '' @ [sq]
            @ ''ADP.2013-12-10T16:12:17.697'' @ [sq])
   \<and> map_sum id (map (\<lambda>c. if c = nl then CHR '' '' else c))
         (byIdentifier ''ADP.2013-12-10T16:12:17.697'')
     = Inr (''SELECT * FROM ivoa.ObsCore WHERE dp_id = '' @ [sq]
            @ ''ADP.2013-12-10T16:12:17.697'' @ [sq])"
  by (simp add: byIdentifier_text)

text \<open>
  C2 as stated fails: the generated string is not the one-line text, whose clauses are
  separated by blanks.
\<close>

theorem byIdentifier_scenario_counterexample:
  "byIdentifier ''ADP.2013-12-10T16:12:17.697''
     \<noteq> Inr (''SELECT * FROM ivoa.ObsCore WHERE dp_id = '' @ [sq]
              @ ''ADP.2013-12-10T16:12:17.697'' @ [sq])"
  by (simp add: byIdentifier_text)

subsection \<open>Cone search\<close>

text \<open>
  C4. For \<open>ra = 185.583\<close>, \<open>dec = 13.093\<close> and a radius of \<open>0.0417\<close> degrees the query
  is the two lines \<open>SELECT *\<close> and \<open>FROM ivoa.ObsCore\<close>, then the clause
  \<open>WHERE intersects(s_region, circle('', 185.583000, 13.093000, 0.041700))=1\<close> and a
  line break: \<open>s_region\<close> first, the circle second, six fractional digits each.
\<close>

theorem coneSearch_scenario:
  "coneSearch (float_literal 185583 3) (float_literal 13093 3) (float_literal 417 4)
     = Inr (''SELECT *\<newline>FROM ivoa.ObsCore\<newline>''
            @ ''WHERE intersects(s_region, circle('' @ [sq, sq]
            @ '', 185.583000, 13.093000, 0.041700))=1''
            @ ''\<newline>'')"
  by code_simp

text \<open>
  C6. The cone-search query built for \<open>ra = 185.5\<close>, \<open>dec = 10.0\<close> and radius \<open>0.5\<close>,
  read back, gives the three numbers of its circle, and they are the values of the three
  inputs: \<open>185.5\<close>, \<open>10\<close> and \<open>0.5\<close>.
\<close>

theorem coneSearch_round_trip:
  "(case coneSearch (float_literal 1855 1) (float_literal 100 1) (float_literal 5 1) of
      Inl err \<Rightarrow> None
    | Inr q \<Rightarrow> circle_numbers q)
     = Some [float_value (float_literal 1855 1), float_value (float_literal 100 1),
             float_value (float_literal 5 1)]
   \<and> [float_value (float_literal 1855 1), float_value (float_literal 100 1),
       float_value (float_literal 5 1)] = [Some (371 / 2), Some 10, Some (1 / 2)]"
  by code_simp

text \<open>
  C10. The radii \<open>0.00000004\<close> and \<open>0.00000005\<close> are different doubles, yet for any
  \<open>ra\<close> and \<open>dec\<close> the two cone-search queries are the same string; the radius read
  back from it is \<open>0\<close>, the value of neither input.
\<close>

theorem coneSearch_six_digits_collide:
  "float_literal 4 8 \<noteq> float_literal 5 8
   \<and> coneSearch ra dec (float_literal 4 8) = coneSearch ra dec (float_literal 5 8)
   \<and> (case coneSearch (float_literal 1855 1) (float_literal 100 1) (float_literal 4 8) of
         Inl err \<Rightarrow> None
       | Inr q \<Rightarrow> circle_numbers q) = Some [Some (371 / 2), Some 10, Some 0]
   \<and> float_value (float_literal 4 8) \<noteq> Some 0
   \<and> float_value (float_literal 5 8) \<noteq> Some 0"
proof -
  have distinct: "float_literal 4 8 \<noteq> float_literal 5 8"
    by code_simp
  have same: "coneSearch ra dec (float_literal 4 8) = coneSearch ra dec (float_literal 5 8)"
    by (simp only: coneSearch_text fmt_f_tiny)
  have parsed: "(case coneSearch (float_literal 1855 1) (float_literal 100 1) (float_literal 4 8) of
         Inl err \<Rightarrow> None
       | Inr q \<Rightarrow> circle_numbers q) = Some [Some (371 / 2), Some 10, Some 0]"
    by code_simp
  have v4: "float_value (float_literal 4 8) \<noteq> Some 0"
    by code_simp
  have v5: "float_value (float_literal 5 8) \<noteq> Some 0"
    by code_simp
  from distinct same parsed v4 v5 show ?thesis by blast
qed

subsection \<open>Region queries\<close>



subsection \<open>Spectral bounds\<close>


subsection \<open>Sending a query\<close>

text \<open>
  C8. For every service, query and row cap: when the call returns no rows, the search
  statement yields the empty table, and the cells that count print
  \<open>Num matching datasets: 0\<close>, with no error; when the call raises, the same exception
  leaves the cell; and in every case the world after the cell is the world after that
  one call, so nothing is sent twice.
\<close>

theorem search_passes_through:
  fixes svc :: "('e, 'r, 'w) tap_service"
  shows "(svc q m w = (Inr [], w') \<longrightarrow>
            search svc q m w = (Inr [], w')
            \<and> search_and_count svc q m w = (Inr ([], ''Num matching datasets: 0''), w'))
       \<and> (svc q m w = (Inl ex, w') \<longrightarrow>
            search svc q m w = (Inl (Raised ex), w')
            \<and> search_and_count svc q m w = (Inl (Raised ex), w'))
       \<and> snd (search svc q m w) = snd (svc q m w)
       \<and> snd (search_and_count svc q m w) = snd (svc q m w)"
  by (auto simp: search_def search_and_count_def prepend_def show_int_def show_nat.simps
           split: prod.splits sum.splits)

text \<open>
  The theorem on an archive without matching rows and on one that cannot be reached:
  one request each.
\<close>

theorem search_passes_through_witness:
  "empty_archive containsPoint_query (Some 1000) 0 = (Inr [], 1)
   \<and> search empty_archive containsPoint_query (Some 1000) 0 = (Inr [], 1)
   \<and> search_and_count empty_archive containsPoint_query (Some 1000) 0
       = (Inr ([], ''Num matching datasets: 0''), 1)
   \<and> unreachable_archive containsPoint_query (Some 1000) 0 = (Inl ''timeout'', 1)
   \<and> search unreachable_archive containsPoint_query (Some 1000) 0
       = (Inl (Raised ''timeout''), 1)
   \<and> search_and_count unreachable_archive containsPoint_query (Some 1000) 0
       = (Inl (Raised ''timeout''), 1)"
  using search_passes_through [of empty_archive containsPoint_query "Some 1000" 0 1]
    search_passes_through [of unreachable_archive containsPoint_query "Some 1000" 0 1 "''timeout''"]
  by (simp add: empty_archive_def unreachable_archive_def)

end
